theory Spec2Isabelle
  imports Main "HOL-Library.Char_ord" "HOL-Library.List_Lexorder" "HOL-Library.Sublist"
begin

section \<open>The phoneme guessing game of \<^verbatim>\<open>game.js\<close>\<close>

text \<open>
  The script keeps its whole state in top-level variables and mutates them from event
  handlers. The embedding gathers those variables in one record and turns every handler
  into a function from the record to the new record. An uncaught \<^verbatim>\<open>TypeError\<close>
  (a property read on \<^verbatim>\<open>undefined\<close>) is a value: \<open>Inl (TypeError, s)\<close>, where
  \<open>s\<close> is the state as the handler left it when it threw, since the assignments made
  before the throw stay in the globals.

  Line 265 of the script (\<^verbatim>\<open>Start the flip\<close>) has lost its comment marker; it is
  read here as the comment that the following line shows it to be. Rendering (grid tiles,
  key elements, progress bar) and the timers of the reveal animation are outside the model:
  they read the state and write nothing back, except that the last timer of
  \<^verbatim>\<open>animateGuess\<close> calls \<^verbatim>\<open>checkWinLoss\<close>, which is modelled as a handler of
  its own.
\<close>

subsection \<open>Strings and arrays of the host language\<close>

text \<open>
  \<^verbatim>\<open>String.prototype.split\<close> with a string separator: the text is scanned from the left,
  every occurrence of the separator found ends one piece and the scan goes on behind it.
  The empty text gives one empty piece. An empty separator cuts between all characters.
\<close>

fun splitOn :: "string \<Rightarrow> string \<Rightarrow> string list" where
  "splitOn sep [] = [[]]"
| "splitOn sep (c # cs) =
     (if prefix sep (c # cs) then [] # splitOn sep (drop (length sep - 1) cs)
      else (case splitOn sep cs of [] \<Rightarrow> [[c]] | p # ps \<Rightarrow> (c # p) # ps))"

definition jsSplit :: "string \<Rightarrow> string \<Rightarrow> string list" where
  "jsSplit s sep = (if sep = [] then map (\<lambda>c. [c]) s else splitOn sep s)"

text \<open>The class \<^verbatim>\<open>\d\<close> of a regular expression without the unicode flag.\<close>

definition isDigit :: "char \<Rightarrow> bool" where
  "isDigit c \<longleftrightarrow> c \<in> set ''0123456789''"

text \<open>\<^verbatim>\<open>s.replace(/\d/g, '')\<close>\<close>

definition removeDigits :: "string \<Rightarrow> string" where
  "removeDigits s = filter (\<lambda>c. \<not> isDigit c) s"

text \<open>\<^verbatim>\<open>Array.prototype.join\<close> on an array of strings.\<close>

fun joinWith :: "string \<Rightarrow> string list \<Rightarrow> string" where
  "joinWith sep [] = []"
| "joinWith sep [x] = x"
| "joinWith sep (x # y # ys) = x @ sep @ joinWith sep (y # ys)"

text \<open>
  \<^verbatim>\<open>s.replace(pat, by)\<close> with a string pattern replaces the first occurrence only.
\<close>

fun replaceFirst :: "string \<Rightarrow> string \<Rightarrow> string \<Rightarrow> string" where
  "replaceFirst pat by [] = (if pat = [] then by else [])"
| "replaceFirst pat by (c # cs) =
     (if prefix pat (c # cs) then by @ drop (length pat) (c # cs)
      else c # replaceFirst pat by cs)"

text \<open>
  \<^verbatim>\<open>Array.prototype.indexOf\<close>: the first index holding the value, \<open>None\<close> for the
  script's \<^verbatim>\<open>-1\<close>.
\<close>

fun indexOf :: "'a list \<Rightarrow> 'a \<Rightarrow> nat option" where
  "indexOf [] x = None"
| "indexOf (y # ys) x = (if y = x then Some 0 else map_option Suc (indexOf ys x))"

text \<open>An array read \<^verbatim>\<open>xs[i]\<close>; \<open>None\<close> is \<^verbatim>\<open>undefined\<close>.\<close>

definition nthOpt :: "'a list \<Rightarrow> nat \<Rightarrow> 'a option" where
  "nthOpt xs i = (if i < length xs then Some (xs ! i) else None)"

text \<open>The decimal text of a number inside a template literal.\<close>

fun showNat :: "nat \<Rightarrow> string" where
  "showNat n =
     (if n < 10 then [''0123456789'' ! n]
      else showNat (n div 10) @ [''0123456789'' ! (n mod 10)])"

declare showNat.simps [simp del]

text \<open>
  A \<^verbatim>\<open>Set\<close> keeps its members in insertion order and ignores a member added again.
\<close>

definition setAdd :: "'a \<Rightarrow> 'a list \<Rightarrow> 'a list" where
  "setAdd x xs = (if x \<in> set xs then xs else xs @ [x])"

subsection \<open>State\<close>

datatype verdict = Absent | Present | Correct

datatype status = Default | StAbsent | StPresent | StCorrect

datatype phase = Loading | Playing | Revealing | Over

datatype error = TypeError

record guess =
  word :: string
  phonemes :: "string list"
  feedback :: "verdict list"

text \<open>
  \<open>targetWord\<close> and \<open>targetPhonemes\<close> are \<^verbatim>\<open>undefined\<close> (\<open>None\<close>) after
  a read past the end of \<^verbatim>\<open>wordlist\<close> or of a key that \<^verbatim>\<open>dictionary\<close> lacks.
  The objects \<^verbatim>\<open>dictionary\<close> and \<^verbatim>\<open>phonemeStatus\<close> are maps from keys to values;
  the properties an object inherits from its prototype are not modelled.
  The last six fields are what the script writes to the page: the two texts of the message
  box and its \<^verbatim>\<open>hidden\<close> class, the \<^verbatim>\<open>shake\<close> class of the input, and the
  \<^verbatim>\<open>hidden\<close> class of the loading screen and of the game container.
\<close>

record game =
  dictionary :: "string \<rightharpoonup> string list"
  frequencySet :: "string set"
  wordlist :: "string list"
  allPhonemesSorted :: "string list"
  phonemeStatus :: "string \<rightharpoonup> status"
  targetWord :: "string option"
  targetPhonemes :: "string list option"
  guesses :: "guess list"
  currentGuess :: string
  currentRow :: nat
  gameState :: phase
  messageText :: string
  messageSubtext :: string
  messageHidden :: bool
  inputShake :: bool
  loadingHidden :: bool
  gameHidden :: bool

definition MAX_GUESSES :: nat where
  "MAX_GUESSES = 6"

definition LINES_PER_FRAME :: nat where
  "LINES_PER_FRAME = 2000"

subsection \<open>Feedback of one guess (lines 187 to 207 of \<^verbatim>\<open>submitGuess\<close>)\<close>

text \<open>
  The working copy \<^verbatim>\<open>tempTarget\<close> holds phonemes and \<^verbatim>\<open>null\<close> (\<open>None\<close>).
  The guess has five phonemes when this code runs (the check of line 180). A read of
  \<^verbatim>\<open>tempTarget[i]\<close> past its end gives \<^verbatim>\<open>undefined\<close>, which is not equal to a
  phoneme, so nothing is written there.
\<close>

definition pass1Step :: "string list \<Rightarrow> nat \<Rightarrow> verdict list \<times> string option list
    \<Rightarrow> verdict list \<times> string option list" where
  "pass1Step guessPhonemes i = (\<lambda>(fb, tempTarget).
     if i < length tempTarget \<and> tempTarget ! i = Some (guessPhonemes ! i)
     then (fb[i := Correct], tempTarget[i := None])
     else (fb, tempTarget))"

definition pass2Step :: "string list \<Rightarrow> nat \<Rightarrow> verdict list \<times> string option list
    \<Rightarrow> verdict list \<times> string option list" where
  "pass2Step guessPhonemes i = (\<lambda>(fb, tempTarget).
     if fb ! i \<noteq> Correct
     then (case indexOf tempTarget (Some (guessPhonemes ! i)) of
             None \<Rightarrow> (fb, tempTarget)
           | Some index \<Rightarrow> (fb[i := Present], tempTarget[index := None]))
     else (fb, tempTarget))"

definition computeFeedback :: "string list \<Rightarrow> string list \<Rightarrow> verdict list" where
  "computeFeedback guessPhonemes targetPhonemes' =
     fst (fold (pass2Step guessPhonemes) [0..<5]
            (fold (pass1Step guessPhonemes) [0..<5]
               ([Absent, Absent, Absent, Absent, Absent], map Some targetPhonemes')))"

subsection \<open>Keyboard status (lines 212 to 222 of \<^verbatim>\<open>submitGuess\<close>)\<close>

definition statusStep :: "string list \<Rightarrow> verdict list \<Rightarrow> nat \<Rightarrow> (string \<rightharpoonup> status)
    \<Rightarrow> (string \<rightharpoonup> status)" where
  "statusStep guessPhonemes fb i ps =
     (let p = guessPhonemes ! i; currentStatus = ps p in
      if fb ! i = Correct then ps(p \<mapsto> StCorrect)
      else if fb ! i = Present \<and> currentStatus \<noteq> Some StCorrect then ps(p \<mapsto> StPresent)
      else if fb ! i = Absent \<and> currentStatus = Some Default then ps(p \<mapsto> StAbsent)
      else ps)"

definition updateStatus :: "string list \<Rightarrow> verdict list \<Rightarrow> (string \<rightharpoonup> status)
    \<Rightarrow> (string \<rightharpoonup> status)" where
  "updateStatus guessPhonemes fb ps = fold (statusStep guessPhonemes fb) [0..<5] ps"

text \<open>
  The rank of a status, and the status a key is drawn with: \<^verbatim>\<open>updatePhonemeKeyboard\<close>
  reads \<^verbatim>\<open>phonemeStatus[p] || 'default'\<close>.
\<close>

fun rank :: "status \<Rightarrow> nat" where
  "rank Default = 0"
| "rank StAbsent = 1"
| "rank StPresent = 2"
| "rank StCorrect = 3"

definition shownStatus :: "(string \<rightharpoonup> status) \<Rightarrow> string \<Rightarrow> status" where
  "shownStatus ps p = (case ps p of None \<Rightarrow> Default | Some s \<Rightarrow> s)"

subsection \<open>Message box and input line\<close>

text \<open>
  \<^verbatim>\<open>showMessageBox\<close> writes the subtext with its first line break replaced. A positive
  \<^verbatim>\<open>timer\<close> schedules \<^verbatim>\<open>hideMessageBox\<close>; that later call is not part of the
  handler that shows the message and is left out.
\<close>

definition showMessageBox :: "string \<Rightarrow> string \<Rightarrow> game \<Rightarrow> game" where
  "showMessageBox text' subtext st =
     st\<lparr>messageText := text',
        messageSubtext := replaceFirst [CHR 0x0A] ''<br>'' subtext,
        messageHidden := False\<rparr>"

definition hideMessageBox :: "game \<Rightarrow> game" where
  "hideMessageBox st = st\<lparr>messageHidden := True\<rparr>"

definition showError :: "string \<Rightarrow> game \<Rightarrow> game" where
  "showError msg st = (showMessageBox msg [] st)\<lparr>inputShake := True, currentGuess := []\<rparr>"

definition updateGuessInput :: "game \<Rightarrow> game" where
  "updateGuessInput st = st\<lparr>inputShake := False\<rparr>"

subsection \<open>Loading the dictionary (lines 61 to 114)\<close>

text \<open>
  The body of the loop of \<^verbatim>\<open>processDictionaryChunk\<close>, lines 72 to 87, in two parts:
  what a line is read as, and what is stored for it. The frequency list is loaded before
  the dictionary (lines 54 to 58); its result is the field \<open>frequencySet\<close>.
\<close>

definition parseLine :: "string \<Rightarrow> (string \<times> string list) option" where
  "parseLine line =
     (if line \<noteq> [] \<and> \<not> prefix '';;;'' line
      then (let parts = jsSplit line ''  '' in
            if length parts = 2
            then (let phonemesStr = removeDigits (parts ! 1)
                  in Some (parts ! 0, filter (\<lambda>p. p \<noteq> []) (jsSplit phonemesStr '' '')))
            else None)
      else None)"

definition processLine :: "string \<Rightarrow> game \<times> string list \<Rightarrow> game \<times> string list" where
  "processLine line = (\<lambda>(st, phonemeSet).
     case parseLine line of
       None \<Rightarrow> (st, phonemeSet)
     | Some (w, ps) \<Rightarrow>
         (st\<lparr>dictionary := (dictionary st)(w \<mapsto> ps),
             wordlist := (if length ps = 5 \<and> w \<in> frequencySet st
                          then wordlist st @ [w] else wordlist st)\<rparr>,
          fold setAdd ps phonemeSet))"

text \<open>
  The key an object is read with when the index expression is a word or
  \<^verbatim>\<open>undefined\<close>, which is also its text inside a template literal.
\<close>

definition keyText :: "string option \<Rightarrow> string" where
  "keyText w = (case w of None \<Rightarrow> ''undefined'' | Some s \<Rightarrow> s)"

text \<open>
  \<^verbatim>\<open>startGame\<close>. The argument \<open>pick\<close> is the value of
  \<^verbatim>\<open>Math.floor(Math.random() * wordlist.length)\<close>: an index of the list when the list
  is not empty, and 0 when it is. The \<^verbatim>\<open>console.log\<close> of line 125 reads
  \<^verbatim>\<open>targetPhonemes.join\<close> and throws when the target has no entry.
\<close>

definition startGame :: "nat \<Rightarrow> game \<Rightarrow> (error \<times> game) + game" where
  "startGame pick st =
     (let st1 = st\<lparr>guesses := [], currentGuess := [], currentRow := 0\<rparr>;
          tw = nthOpt (wordlist st1) pick;
          st2 = st1\<lparr>targetWord := tw, targetPhonemes := dictionary st1 (keyText tw)\<rparr>
      in case targetPhonemes st2 of
           None \<Rightarrow> Inl (TypeError, st2)
         | Some tp \<Rightarrow>
             Inr (hideMessageBox
                    (st2\<lparr>phonemeStatus :=
                           fold (\<lambda>p m. m(p \<mapsto> Default)) (allPhonemesSorted st2) Map.empty\<rparr>)
                  \<lparr>gameState := Playing\<rparr>))"

definition finishLoading :: "string list \<Rightarrow> nat \<Rightarrow> game \<Rightarrow> (error \<times> game) + game" where
  "finishLoading phonemeSet pick st =
     startGame pick
       (st\<lparr>allPhonemesSorted := sort phonemeSet, loadingHidden := True, gameHidden := False\<rparr>)"

text \<open>
  \<^verbatim>\<open>processDictionaryChunk\<close> handles the lines from \<open>index\<close> up to the end of the
  batch and then either schedules itself for the next batch or finishes. The scheduled
  call is the recursive call: between two batches only key events can run, and
  \<^verbatim>\<open>handleKeydown\<close> returns at once while the phase is \<^verbatim>\<open>loading\<close>. The batch size
  is a parameter; the script's is \<open>LINES_PER_FRAME\<close>. With a batch of no lines the
  script would schedule itself for ever, so the function is partial.
\<close>

partial_function (option) processDictionaryChunk ::
    "nat \<Rightarrow> string list \<Rightarrow> nat \<Rightarrow> nat \<Rightarrow> game \<times> string list
      \<Rightarrow> ((error \<times> game) + game) option" where
  "processDictionaryChunk linesPerFrame lines pick index acc =
     (let totalLines = length lines;
          endIndex = min (index + linesPerFrame) totalLines;
          acc' = fold (\<lambda>i. processLine (lines ! i)) [index..<endIndex] acc
      in if endIndex < totalLines
         then processDictionaryChunk linesPerFrame lines pick endIndex acc'
         else Some (finishLoading (snd acc') pick (fst acc')))"

definition loadGameData :: "string \<Rightarrow> nat \<Rightarrow> game \<Rightarrow> ((error \<times> game) + game) option" where
  "loadGameData dictText pick st =
     processDictionaryChunk LINES_PER_FRAME (jsSplit dictText [CHR 0x0A]) pick 0 (st, [])"

text \<open>
  The reading of the specification that the chunked loader is compared with: all lines
  are handled in one pass, in file order, and then loading finishes.
\<close>

definition loadSinglePass :: "string list \<Rightarrow> nat \<Rightarrow> game \<times> string list
    \<Rightarrow> (error \<times> game) + game" where
  "loadSinglePass lines pick acc =
     (let acc' = fold processLine lines acc in finishLoading (snd acc') pick (fst acc'))"

subsection \<open>Submitting a guess and finishing the row\<close>

text \<open>
  \<^verbatim>\<open>submitGuess\<close>, lines 170 to 230. \<^verbatim>\<open>!guessPhonemes\<close> holds exactly when the
  lexicon has no entry: an array, even an empty one, is truthy. The copy
  \<^verbatim>\<open>[...targetPhonemes]\<close> throws when the target is \<^verbatim>\<open>undefined\<close>, after the phase
  was set. At the end \<^verbatim>\<open>animateGuess\<close> reads the tiles of row \<^verbatim>\<open>currentRow\<close> of
  the grid, which has \<open>MAX_GUESSES\<close> rows, and throws when there is no such row; all
  else it does is scheduled for later.
\<close>

definition submitGuess :: "game \<Rightarrow> (error \<times> game) + game" where
  "submitGuess st =
     (if currentGuess st = [] then Inr st
      else case dictionary st (currentGuess st) of
        None \<Rightarrow> Inr (showError ''Word not in dictionary'' st)
      | Some guessPhonemes \<Rightarrow>
          if length guessPhonemes \<noteq> 5
          then Inr (showError
                 (''Guess must have 5 sounds (not '' @ showNat (length guessPhonemes) @ '')'') st)
          else (let st1 = st\<lparr>gameState := Revealing\<rparr> in
                case targetPhonemes st1 of
                  None \<Rightarrow> Inl (TypeError, st1)
                | Some tp \<Rightarrow>
                    (let fb = computeFeedback guessPhonemes tp;
                         st2 = st1\<lparr>guesses := guesses st1 @
                                 [\<lparr>word = currentGuess st1, phonemes = guessPhonemes,
                                   feedback = fb\<rparr>],
                               phonemeStatus := updateStatus guessPhonemes fb (phonemeStatus st1)\<rparr>;
                         st3 = updateGuessInput (st2\<lparr>currentGuess := []\<rparr>)
                     in if currentRow st3 < MAX_GUESSES then Inr st3
                        else Inl (TypeError, st3))))"

text \<open>
  \<^verbatim>\<open>checkWinLoss\<close>, lines 278 to 295. Reading \<^verbatim>\<open>feedback\<close> of the last guess
  throws when there is no guess; \<^verbatim>\<open>targetPhonemes.join\<close> throws when the target is
  \<^verbatim>\<open>undefined\<close>.
\<close>

definition checkWinLoss :: "game \<Rightarrow> (error \<times> game) + game" where
  "checkWinLoss st =
     (case nthOpt (guesses st) (length (guesses st) - 1) of
        None \<Rightarrow> Inl (TypeError, st)
      | Some lastGuess \<Rightarrow>
          (let won = list_all (\<lambda>f. f = Correct) (feedback lastGuess) in
           if won
           then Inr ((showMessageBox ''You won!'' ''Press Enter to play again'' st)
                       \<lparr>gameState := Over\<rparr>)
           else if length (guesses st) = MAX_GUESSES
           then (case targetPhonemes st of
                   None \<Rightarrow> Inl (TypeError, st)
                 | Some tp \<Rightarrow>
                     (let revealText = ''The word was: '' @ keyText (targetWord st) @
                            [CHR 0x0A] @ ''/'' @ joinWith '' '' tp @ ''/''
                      in Inr ((showMessageBox ''Out of guesses!''
                                 (revealText @ [CHR 0x0A] @ ''Press Enter to play again'') st)
                               \<lparr>gameState := Over\<rparr>)))
           else Inr (st\<lparr>currentRow := currentRow st + 1, gameState := Playing\<rparr>)))"

subsection \<open>The state the script starts in, and a round used in the examples\<close>

text \<open>
  The declarations of lines 13 to 24, once the frequency list \<open>freq\<close> is loaded. The
  page shows the loading screen and hides the game and the message box until the script
  changes that.
\<close>

definition initialGame :: "string set \<Rightarrow> game" where
  "initialGame freq =
     \<lparr>dictionary = Map.empty, frequencySet = freq, wordlist = [], allPhonemesSorted = [],
      phonemeStatus = Map.empty, targetWord = Some [], targetPhonemes = Some [],
      guesses = [], currentGuess = [], currentRow = 0, gameState = Loading,
      messageText = [], messageSubtext = [], messageHidden = True, inputShake = False,
      loadingHidden = False, gameHidden = True\<rparr>"

definition exampleRound :: game where
  "exampleRound =
     (initialGame {''WORLDS''})
       \<lparr>dictionary := [''WORLDS'' \<mapsto> [''W'', ''ER'', ''L'', ''D'', ''Z''],
                       ''CAT'' \<mapsto> [''K'', ''AE'', ''T'']],
        wordlist := [''WORLDS''],
        allPhonemesSorted := [''AE'', ''D'', ''ER'', ''K'', ''L'', ''T'', ''W'', ''Z''],
        targetWord := Some ''WORLDS'',
        targetPhonemes := Some [''W'', ''ER'', ''L'', ''D'', ''Z''],
        gameState := Playing\<rparr>"

text \<open>
  A guess that misses the target of \<open>exampleRound\<close>, with the feedback the script
  computes for it, and a dictionary text of three lines, the second a comment.
\<close>

definition exampleMiss :: guess where
  "exampleMiss =
     \<lparr>word = ''WORDS'', phonemes = [''W'', ''ER'', ''D'', ''Z'', ''Z''],
      feedback = [Correct, Correct, Present, Absent, Correct]\<rparr>"

definition exampleDictionary :: string where
  "exampleDictionary =
     ''WORLDS  W ER1 L D Z'' @ [CHR 0x0A] @ '';;; note'' @ [CHR 0x0A] @ ''CAT  K AE1 T''"

subsection \<open>Notions used in the proofs\<close>

text \<open>
  The number of positions of a guess that hold the phoneme \<open>s\<close> and are marked correct
  or present, and the invariant of the two passes: every mark has used up one slot of the
  working copy that held the same phoneme.
\<close>

definition marked :: "string list \<Rightarrow> verdict list \<Rightarrow> string \<Rightarrow> nat" where
  "marked g fb s =
     length (filter (\<lambda>i. (fb ! i = Correct \<or> fb ! i = Present) \<and> g ! i = s) [0..<5])"

definition consumed :: "string list \<Rightarrow> string list \<Rightarrow> verdict list \<times> string option list
    \<Rightarrow> bool" where
  "consumed g t = (\<lambda>(fb, tt). \<forall>s. marked g fb s + count_list tt (Some s) \<le> count_list t s)"

text \<open>
  A phoneme field as the dictionary format has it: tokens that are not empty and hold no
  space.
\<close>

definition spaceFree :: "string list \<Rightarrow> bool" where
  "spaceFree ts \<longleftrightarrow> list_all (\<lambda>t. t \<noteq> [] \<and> CHR '' '' \<notin> set t) ts"

text \<open>
  The records of a dictionary, in file order, and the words among them that qualify as
  candidates.
\<close>

definition records :: "string list \<Rightarrow> (string \<times> string list) list" where
  "records lines = List.map_filter parseLine lines"

definition candidates :: "string set \<Rightarrow> (string \<times> string list) list \<Rightarrow> string list" where
  "candidates freq rs = map fst (filter (\<lambda>(w, ps). length ps = 5 \<and> w \<in> freq) rs)"

text \<open>The top-level variables after a handler has returned or thrown.\<close>

definition globals :: "(error \<times> game) + game \<Rightarrow> game" where
  "globals r = (case r of Inl (e, st) \<Rightarrow> st | Inr st \<Rightarrow> st)"

section \<open>Feedback\<close>

lemma count_list_update:
  "i < length xs \<Longrightarrow> v \<noteq> a \<Longrightarrow>
   count_list (xs[i := v]) a + (if xs ! i = a then 1 else 0) = count_list xs a"
proof (induction xs arbitrary: i)
  case Nil
  then show ?case by simp
next
  case (Cons x xs)
  show ?case
  proof (cases i)
    case 0
    with Cons.prems show ?thesis by simp
  next
    case (Suc j)
    with Cons.prems have "j < length xs" by simp
    from Cons.IH [OF this Cons.prems(2)] Suc show ?thesis by (auto split: if_splits)
  qed
qed

lemma indexOf_Some: "indexOf xs x = Some k \<Longrightarrow> k < length xs \<and> xs ! k = x"
  by (induction xs arbitrary: k) (auto split: if_splits)

lemma marked_card:
  "marked g fb s = card {i. i < 5 \<and> (fb ! i = Correct \<or> fb ! i = Present) \<and> g ! i = s}"
  unfolding marked_def by (simp add: length_filter_conv_card cong: conj_cong)

lemma marked_update_same: "marked g (fb[i := v]) (g ! i) \<le> Suc (marked g fb (g ! i))"
proof -
  let ?old = "{j. j < 5 \<and> (fb ! j = Correct \<or> fb ! j = Present) \<and> g ! j = g ! i}"
  let ?new = "{j. j < 5 \<and> (fb[i := v] ! j = Correct \<or> fb[i := v] ! j = Present) \<and> g ! j = g ! i}"
  have "?new \<subseteq> insert i ?old"
    by (auto simp: nth_list_update_neq)
  then have "card ?new \<le> card (insert i ?old)"
    by (intro card_mono) auto
  also have "\<dots> \<le> Suc (card ?old)"
    by (simp add: card_insert_if)
  finally show ?thesis by (simp add: marked_card)
qed

lemma marked_update_other: "s \<noteq> g ! i \<Longrightarrow> marked g (fb[i := v]) s \<le> marked g fb s"
proof -
  assume "s \<noteq> g ! i"
  then have "\<And>j. g ! j = s \<Longrightarrow> fb[i := v] ! j = fb ! j"
    by (intro nth_list_update_neq) auto
  then have "{j. j < 5 \<and> (fb[i := v] ! j = Correct \<or> fb[i := v] ! j = Present) \<and> g ! j = s}
     \<subseteq> {j. j < 5 \<and> (fb ! j = Correct \<or> fb ! j = Present) \<and> g ! j = s}"
    by auto
  then show ?thesis unfolding marked_card by (intro card_mono) auto
qed

lemma consume_slot:
  assumes inv: "consumed g t (fb, tt)" and k: "k < length tt" and slot: "tt ! k = Some (g ! i)"
  shows "consumed g t (fb[i := v], tt[k := None])"
  unfolding consumed_def
proof (clarify)
  fix s
  from inv have le: "marked g fb s + count_list tt (Some s) \<le> count_list t s"
    by (simp add: consumed_def)
  show "marked g (fb[i := v]) s + count_list (tt[k := None]) (Some s) \<le> count_list t s"
  proof (cases "s = g ! i")
    case True
    from count_list_update [OF k, of None "Some s"] slot True
    have "Suc (count_list (tt[k := None]) (Some s)) = count_list tt (Some s)" by simp
    with marked_update_same [of g fb i v] True le show ?thesis by simp
  next
    case False
    from count_list_update [OF k, of None "Some s"] slot False
    have "count_list (tt[k := None]) (Some s) = count_list tt (Some s)" by simp
    with marked_update_other [OF False, of fb v] le show ?thesis by simp
  qed
qed

lemma pass1Step_consumed: "consumed g t st \<Longrightarrow> consumed g t (pass1Step g i st)"
  by (cases st) (auto simp: pass1Step_def intro: consume_slot)

lemma pass2Step_consumed: "consumed g t st \<Longrightarrow> consumed g t (pass2Step g i st)"
  by (cases st)
    (auto simp: pass2Step_def split: option.splits dest!: indexOf_Some intro: consume_slot)

lemma fold_invariant:
  "(\<And>i st. P st \<Longrightarrow> P (f i st)) \<Longrightarrow> P st \<Longrightarrow> P (fold f is st)"
  by (induction "is" arbitrary: st) auto

lemma count_list_map_Some: "count_list (map Some t) (Some s) = count_list t s"
  by (induction t) auto

lemma consumed_init: "consumed g t ([Absent, Absent, Absent, Absent, Absent], map Some t)"
  by (simp add: consumed_def marked_def count_list_map_Some upt_rec)

text \<open>
  C1. For five-phoneme sequences \<open>G\<close> (the guess) and \<open>T\<close> (the target) and every
  phoneme \<open>s\<close>, the number of positions of the feedback that are marked correct or
  present and whose guess phoneme is \<open>s\<close> is at most the number of occurrences of
  \<open>s\<close> in \<open>T\<close>.
\<close>

theorem feedback_marks_bounded:
  assumes "length G = 5" and "length T = 5"
  shows "length (filter (\<lambda>i. (computeFeedback G T ! i = Correct \<or>
                               computeFeedback G T ! i = Present) \<and> G ! i = s) [0..<5])
     \<le> count_list T s"
proof -
  let ?start = "([Absent, Absent, Absent, Absent, Absent], map Some T)"
  let ?r = "fold (pass2Step G) [0..<5] (fold (pass1Step G) [0..<5] ?start)"
  have "consumed G T (fold (pass1Step G) [0..<5] ?start)"
    by (rule fold_invariant [where P = "consumed G T"])
      (simp_all add: pass1Step_consumed consumed_init)
  then have "consumed G T ?r"
    by (rule fold_invariant [where P = "consumed G T", rotated]) (simp add: pass2Step_consumed)
  then have "marked G (fst ?r) s + count_list (snd ?r) (Some s) \<le> count_list T s"
    by (simp add: consumed_def split_beta)
  then show ?thesis by (simp add: marked_def computeFeedback_def)
qed

theorem feedback_marks_bounded_witness:
  "length [''A'', ''A'', ''B'', ''C'', ''D''] = 5 \<and> length [''A'', ''B'', ''B'', ''C'', ''C''] = 5 \<and>
   length (filter (\<lambda>i.
      (computeFeedback [''A'', ''A'', ''B'', ''C'', ''D''] [''A'', ''B'', ''B'', ''C'', ''C''] ! i = Correct \<or>
       computeFeedback [''A'', ''A'', ''B'', ''C'', ''D''] [''A'', ''B'', ''B'', ''C'', ''C''] ! i = Present) \<and>
      [''A'', ''A'', ''B'', ''C'', ''D''] ! i = ''A'') [0..<5])
     \<le> count_list [''A'', ''B'', ''B'', ''C'', ''C''] ''A''"
proof -
  have g: "length [''A'', ''A'', ''B'', ''C'', ''D''] = 5" by simp
  have t: "length [''A'', ''B'', ''B'', ''C'', ''C''] = 5" by simp
  from feedback_marks_bounded [OF g t, of "''A''"] g t show ?thesis by blast
qed

lemma exampleMiss_feedback:
  "feedback exampleMiss = computeFeedback (phonemes exampleMiss) [''W'', ''ER'', ''L'', ''D'', ''Z'']"
  by (simp add: exampleMiss_def computeFeedback_def pass1Step_def pass2Step_def upt_rec)

text \<open>
  C2. The guess \<open>[A, A, B, C, D]\<close> against the target \<open>[A, B, B, C, C]\<close>, for
  four different phonemes, has the feedback correct, absent, correct, correct, absent.
\<close>

theorem feedback_duplicate_case:
  assumes "distinct [a, b, c, d]"
  shows "computeFeedback [a, a, b, c, d] [a, b, b, c, c]
     = [Correct, Absent, Correct, Correct, Absent]"
  using assms by (auto simp add: computeFeedback_def pass1Step_def pass2Step_def upt_rec)

theorem feedback_duplicate_case_witness:
  "distinct [''A'', ''B'', ''C'', ''D''] \<and>
   computeFeedback [''A'', ''A'', ''B'', ''C'', ''D''] [''A'', ''B'', ''B'', ''C'', ''C'']
     = [Correct, Absent, Correct, Correct, Absent]"
proof -
  have d: "distinct [''A'', ''B'', ''C'', ''D'']" by simp
  from feedback_duplicate_case [OF d] d show ?thesis by blast
qed

section \<open>Keyboard status\<close>

lemma statusStep_rank:
  "rank (shownStatus ps p) \<le> rank (shownStatus (statusStep g fb i ps) p)"
proof (cases "ps (g ! i)")
  case None
  then show ?thesis
    by (simp add: statusStep_def shownStatus_def Let_def)
next
  case (Some s)
  then show ?thesis
    by (cases s) (auto simp: statusStep_def shownStatus_def Let_def)
qed

lemma statusStep_correct:
  "ps p = Some StCorrect \<Longrightarrow> statusStep g fb i ps p = Some StCorrect"
  by (auto simp: statusStep_def Let_def)

lemma updateStatus_rank:
  "rank (shownStatus ps p) \<le> rank (shownStatus (updateStatus g fb ps) p)"
proof -
  have "rank (shownStatus ps p) \<le> rank (shownStatus (fold (statusStep g fb) js ps) p)" for js
  proof (induction js arbitrary: ps)
    case Nil
    show ?case by simp
  next
    case (Cons j js)
    have "rank (shownStatus ps p) \<le> rank (shownStatus (statusStep g fb j ps) p)"
      by (rule statusStep_rank)
    also have "\<dots> \<le> rank (shownStatus (fold (statusStep g fb) js (statusStep g fb j ps)) p)"
      by (rule Cons.IH)
    finally show ?case by simp
  qed
  then show ?thesis by (simp add: updateStatus_def)
qed

lemma updateStatus_correct:
  "ps p = Some StCorrect \<Longrightarrow> updateStatus g fb ps p = Some StCorrect"
proof -
  have "ps p = Some StCorrect \<Longrightarrow> fold (statusStep g fb) js ps p = Some StCorrect" for js
    by (induction js arbitrary: ps) (simp_all add: statusStep_correct)
  then show "ps p = Some StCorrect \<Longrightarrow> updateStatus g fb ps p = Some StCorrect"
    by (simp add: updateStatus_def)
qed

text \<open>
  C3. Over any sequence of accepted guesses (five phonemes, five verdicts each) the rank of
  the status a phoneme is shown with, default below absent below present below correct,
  never decreases; a phoneme that is correct stays correct; and in every step of the
  update a present verdict leaves a correct phoneme as it is, and an absent verdict leaves
  every phoneme as it is whose status is not default.
\<close>

theorem keyboard_status_monotone:
  assumes "\<forall>(g, fb) \<in> set gs. length g = 5 \<and> length fb = 5"
  shows "rank (shownStatus ps p)
       \<le> rank (shownStatus (fold (\<lambda>(g, fb). updateStatus g fb) gs ps) p)
    \<and> (ps p = Some StCorrect \<longrightarrow>
         fold (\<lambda>(g, fb). updateStatus g fb) gs ps p = Some StCorrect)
    \<and> (\<forall>(g, fb) \<in> set gs. \<forall>i < 5. \<forall>qs.
          (fb ! i = Present \<and> qs (g ! i) = Some StCorrect \<longrightarrow> statusStep g fb i qs = qs)
        \<and> (fb ! i = Absent \<and> qs (g ! i) \<noteq> Some Default \<longrightarrow> statusStep g fb i qs = qs))"
proof (intro conjI)
  show "rank (shownStatus ps p)
      \<le> rank (shownStatus (fold (\<lambda>(g, fb). updateStatus g fb) gs ps) p)"
  proof (induction gs arbitrary: ps)
    case Nil
    show ?case by simp
  next
    case (Cons x xs)
    obtain g fb where x: "x = (g, fb)" by (cases x)
    have "rank (shownStatus ps p) \<le> rank (shownStatus (updateStatus g fb ps) p)"
      by (rule updateStatus_rank)
    also have "\<dots> \<le> rank (shownStatus
        (fold (\<lambda>(g, fb). updateStatus g fb) xs (updateStatus g fb ps)) p)"
      by (rule Cons.IH)
    finally show ?case by (simp add: x)
  qed
  show "ps p = Some StCorrect \<longrightarrow>
      fold (\<lambda>(g, fb). updateStatus g fb) gs ps p = Some StCorrect"
    by (induction gs arbitrary: ps) (auto simp: updateStatus_correct)
  show "\<forall>(g, fb) \<in> set gs. \<forall>i < 5. \<forall>qs.
          (fb ! i = Present \<and> qs (g ! i) = Some StCorrect \<longrightarrow> statusStep g fb i qs = qs)
        \<and> (fb ! i = Absent \<and> qs (g ! i) \<noteq> Some Default \<longrightarrow> statusStep g fb i qs = qs)"
    by (auto simp: statusStep_def Let_def)
qed

theorem keyboard_status_monotone_witness:
  "length [''W'', ''ER'', ''L'', ''D'', ''Z''] = 5
   \<and> length [Correct, Absent, Absent, Present, Absent] = 5
   \<and> [''W'' \<mapsto> StCorrect, ''D'' \<mapsto> StCorrect, ''ER'' \<mapsto> StPresent] ''W'' = Some StCorrect
   \<and> fold (\<lambda>(g, fb). updateStatus g fb)
        [([''W'', ''ER'', ''L'', ''D'', ''Z''], [Correct, Absent, Absent, Present, Absent])]
        [''W'' \<mapsto> StCorrect, ''D'' \<mapsto> StCorrect, ''ER'' \<mapsto> StPresent] ''W'' = Some StCorrect
   \<and> statusStep [''W'', ''ER'', ''L'', ''D'', ''Z''] [Correct, Absent, Absent, Present, Absent] 3
        [''W'' \<mapsto> StCorrect, ''D'' \<mapsto> StCorrect, ''ER'' \<mapsto> StPresent]
       = [''W'' \<mapsto> StCorrect, ''D'' \<mapsto> StCorrect, ''ER'' \<mapsto> StPresent]
   \<and> statusStep [''W'', ''ER'', ''L'', ''D'', ''Z''] [Correct, Absent, Absent, Present, Absent] 1
        [''W'' \<mapsto> StCorrect, ''D'' \<mapsto> StCorrect, ''ER'' \<mapsto> StPresent]
       = [''W'' \<mapsto> StCorrect, ''D'' \<mapsto> StCorrect, ''ER'' \<mapsto> StPresent]"
proof -
  let ?g = "[''W'', ''ER'', ''L'', ''D'', ''Z'']"
  let ?fb = "[Correct, Absent, Absent, Present, Absent]"
  let ?ps = "[''W'' \<mapsto> StCorrect, ''D'' \<mapsto> StCorrect, ''ER'' \<mapsto> StPresent]"
  have h: "\<forall>(g, fb) \<in> set [(?g, ?fb)]. length g = 5 \<and> length fb = 5" by simp
  have w: "?ps ''W'' = Some StCorrect" by simp
  note t = keyboard_status_monotone [OF h, of ?ps "''W''"]
  from t w have sticky: "fold (\<lambda>(g, fb). updateStatus g fb) [(?g, ?fb)] ?ps ''W'' = Some StCorrect"
    by blast
  from t have step: "\<And>i qs. i < 5 \<Longrightarrow>
          (?fb ! i = Present \<and> qs (?g ! i) = Some StCorrect \<longrightarrow> statusStep ?g ?fb i qs = qs)
        \<and> (?fb ! i = Absent \<and> qs (?g ! i) \<noteq> Some Default \<longrightarrow> statusStep ?g ?fb i qs = qs)"
    by simp
  have p: "statusStep ?g ?fb 3 ?ps = ?ps" using step [of 3 ?ps] by simp
  have a: "statusStep ?g ?fb 1 ?ps = ?ps" using step [of 1 ?ps] by simp
  have l: "length ?g = 5" "length ?fb = 5" by simp_all
  from l w sticky p a show ?thesis by blast
qed

section \<open>Finishing a row\<close>

lemma replaceFirst_char:
  "c \<notin> set pre \<Longrightarrow> replaceFirst [c] by (pre @ c # rest) = pre @ by @ rest"
  by (induction pre) auto

lemma nthOpt_last: "xs \<noteq> [] \<Longrightarrow> nthOpt xs (length xs - 1) = Some (last xs)"
  by (simp add: nthOpt_def last_conv_nth)

text \<open>
  C4. When \<^verbatim>\<open>checkWinLoss\<close> runs after a submitted guess (there is a guess, and the
  round has a target): if every verdict of the last guess is correct the phase becomes
  over with the message of a win; otherwise, with six guesses, the phase becomes over with
  the message of a loss, whose subtext shows the target word and its pronunciation;
  otherwise the phase is playing again and the row index is one more.
\<close>

theorem checkWinLoss_outcome:
  assumes "guesses st \<noteq> []" and "targetPhonemes st = Some tp"
    and "CHR 0x0A \<notin> set (keyText (targetWord st))"
  shows "\<exists>st'. checkWinLoss st = Inr st' \<and>
    (if list_all (\<lambda>f. f = Correct) (feedback (last (guesses st)))
     then gameState st' = Over \<and> messageText st' = ''You won!'' \<and> \<not> messageHidden st'
     else if length (guesses st) = 6
     then gameState st' = Over \<and> messageText st' = ''Out of guesses!'' \<and> \<not> messageHidden st' \<and>
          messageSubtext st' = ''The word was: '' @ keyText (targetWord st) @ ''<br>/'' @
             joinWith '' '' tp @ ''/'' @ [CHR 0x0A] @ ''Press Enter to play again''
     else gameState st' = Playing \<and> currentRow st' = currentRow st + 1)"
proof -
  let ?won = "list_all (\<lambda>f. f = Correct) (feedback (last (guesses st)))"
  have lastGuess: "nthOpt (guesses st) (length (guesses st) - 1) = Some (last (guesses st))"
    using assms(1) by (rule nthOpt_last)
  show ?thesis
  proof (cases ?won)
    case True
    then show ?thesis
      unfolding checkWinLoss_def lastGuess by (simp add: showMessageBox_def)
  next
    case notWon: False
    show ?thesis
    proof (cases "length (guesses st) = 6")
      case True
      with notWon assms(2,3) show ?thesis
        unfolding checkWinLoss_def lastGuess
        by (simp add: showMessageBox_def MAX_GUESSES_def replaceFirst_char)
    next
      case False
      with notWon show ?thesis
        unfolding checkWinLoss_def lastGuess by (simp add: MAX_GUESSES_def)
    qed
  qed
qed

theorem checkWinLoss_outcome_witness:
  "guesses (exampleRound\<lparr>guesses := replicate 6 exampleMiss\<rparr>) \<noteq> []
   \<and> targetPhonemes (exampleRound\<lparr>guesses := replicate 6 exampleMiss\<rparr>)
       = Some [''W'', ''ER'', ''L'', ''D'', ''Z'']
   \<and> CHR 0x0A \<notin> set (keyText (targetWord (exampleRound\<lparr>guesses := replicate 6 exampleMiss\<rparr>)))
   \<and> (\<exists>st'. checkWinLoss (exampleRound\<lparr>guesses := replicate 6 exampleMiss\<rparr>) = Inr st'
         \<and> gameState st' = Over \<and> messageText st' = ''Out of guesses!''
         \<and> messageSubtext st' = ''The word was: WORLDS<br>/W ER L D Z/'' @ [CHR 0x0A] @
               ''Press Enter to play again'')"
proof -
  let ?st = "exampleRound\<lparr>guesses := replicate 6 exampleMiss\<rparr>"
  have g: "guesses ?st \<noteq> []" by (simp add: numeral_eq_Suc)
  have t: "targetPhonemes ?st = Some [''W'', ''ER'', ''L'', ''D'', ''Z'']"
    by (simp add: exampleRound_def)
  have n: "CHR 0x0A \<notin> set (keyText (targetWord ?st))"
    by (simp add: exampleRound_def keyText_def)
  have won: "\<not> list_all (\<lambda>f. f = Correct) (feedback (last (guesses ?st)))"
    by (simp add: exampleMiss_def)
  have six: "length (guesses ?st) = 6" by simp
  have w: "keyText (targetWord ?st) = ''WORLDS''"
    by (simp add: exampleRound_def keyText_def)
  from checkWinLoss_outcome [OF g t n] won six w g t n show ?thesis
    by (auto simp del: replicate.simps replicate_Suc)
qed

section \<open>Rejected guesses\<close>

text \<open>
  C6. A non-empty guess text that the lexicon lacks, or whose entry has not five
  phonemes, is answered inside \<^verbatim>\<open>submitGuess\<close> by the message of the error; the phase
  and the list of guesses stay as they are and the input buffer is emptied.
\<close>

theorem submitGuess_rejects:
  assumes "currentGuess st \<noteq> []"
    and "dictionary st (currentGuess st) = None \<or>
         (\<exists>ps. dictionary st (currentGuess st) = Some ps \<and> length ps \<noteq> 5)"
  shows "\<exists>st'. submitGuess st = Inr st' \<and> gameState st' = gameState st \<and>
     guesses st' = guesses st \<and> currentGuess st' = [] \<and> \<not> messageHidden st' \<and>
     messageText st' = (case dictionary st (currentGuess st) of
        None \<Rightarrow> ''Word not in dictionary''
      | Some ps \<Rightarrow> ''Guess must have 5 sounds (not '' @ showNat (length ps) @ '')'')"
  using assms by (auto simp: submitGuess_def showError_def showMessageBox_def)

theorem submitGuess_rejects_witness:
  "currentGuess (exampleRound\<lparr>currentGuess := ''CAT''\<rparr>) \<noteq> []
   \<and> (\<exists>st'. submitGuess (exampleRound\<lparr>currentGuess := ''CAT''\<rparr>) = Inr st'
        \<and> gameState st' = Playing \<and> guesses st' = [] \<and> currentGuess st' = []
        \<and> messageText st' = ''Guess must have 5 sounds (not 3)'')
   \<and> currentGuess (exampleRound\<lparr>currentGuess := ''XYZZY''\<rparr>) \<noteq> []
   \<and> (\<exists>st'. submitGuess (exampleRound\<lparr>currentGuess := ''XYZZY''\<rparr>) = Inr st'
        \<and> gameState st' = Playing \<and> guesses st' = [] \<and> currentGuess st' = []
        \<and> messageText st' = ''Word not in dictionary'')"
proof -
  let ?a = "exampleRound\<lparr>currentGuess := ''CAT''\<rparr>"
  let ?b = "exampleRound\<lparr>currentGuess := ''XYZZY''\<rparr>"
  have ga: "currentGuess ?a \<noteq> []" and gb: "currentGuess ?b \<noteq> []" by simp_all
  have da: "dictionary ?a (currentGuess ?a) = None \<or>
         (\<exists>ps. dictionary ?a (currentGuess ?a) = Some ps \<and> length ps \<noteq> 5)"
    by (simp add: exampleRound_def)
  have db: "dictionary ?b (currentGuess ?b) = None \<or>
         (\<exists>ps. dictionary ?b (currentGuess ?b) = Some ps \<and> length ps \<noteq> 5)"
    by (simp add: exampleRound_def)
  from submitGuess_rejects [OF ga da]
  have a: "\<exists>st'. submitGuess ?a = Inr st'
        \<and> gameState st' = Playing \<and> guesses st' = [] \<and> currentGuess st' = []
        \<and> messageText st' = ''Guess must have 5 sounds (not 3)''"
    by (auto simp: exampleRound_def initialGame_def showNat.simps)
  from submitGuess_rejects [OF gb db]
  have b: "\<exists>st'. submitGuess ?b = Inr st'
        \<and> gameState st' = Playing \<and> guesses st' = [] \<and> currentGuess st' = []
        \<and> messageText st' = ''Word not in dictionary''"
    by (auto simp: exampleRound_def initialGame_def)
  from ga a gb b show ?thesis by blast
qed

section \<open>Dictionary records\<close>

lemma splitOn_not_Nil: "splitOn sep s \<noteq> []"
  by (induction sep s rule: splitOn.induct) (auto split: list.splits)

lemma splitOn_chars: "p \<in> set (splitOn sep s) \<Longrightarrow> set p \<subseteq> set s"
proof (induction sep s arbitrary: p rule: splitOn.induct)
  case (1 sep)
  then show ?case by simp
next
  case (2 sep c cs)
  show ?case
  proof (cases "prefix sep (c # cs)")
    case True
    with "2.prems" have "p = [] \<or> p \<in> set (splitOn sep (drop (length sep - 1) cs))"
      by simp
    then show ?thesis
    proof
      assume "p = []"
      then show ?thesis by simp
    next
      assume "p \<in> set (splitOn sep (drop (length sep - 1) cs))"
      from "2.IH"(1) [OF True this] have "set p \<subseteq> set (drop (length sep - 1) cs)" .
      also have "\<dots> \<subseteq> set cs" by (rule set_drop_subset)
      finally show ?thesis by auto
    qed
  next
    case False
    obtain q qs where q: "splitOn sep cs = q # qs"
      using splitOn_not_Nil [of sep cs] by (cases "splitOn sep cs") auto
    with False "2.prems" have "p = c # q \<or> p \<in> set qs" by simp
    then show ?thesis
    proof
      assume p: "p = c # q"
      from "2.IH"(2) [OF False, of q] q have "set q \<subseteq> set cs" by simp
      with p show ?thesis by auto
    next
      assume "p \<in> set qs"
      with "2.IH"(2) [OF False, of p] q have "set p \<subseteq> set cs" by simp
      then show ?thesis by auto
    qed
  qed
qed

lemma jsSplit_chars: "p \<in> set (jsSplit s sep) \<Longrightarrow> set p \<subseteq> set s"
  using splitOn_chars [of p sep s] by (auto simp: jsSplit_def split: if_splits)

lemma parseLine_clean:
  assumes "parseLine line = Some (w, ps)" and "p \<in> set ps"
  shows "p \<noteq> [] \<and> (\<forall>c \<in> set p. \<not> isDigit c)"
proof -
  from assms obtain field where "p \<in> set (jsSplit (removeDigits field) '' '')" and "p \<noteq> []"
    by (auto simp: parseLine_def Let_def split: if_splits)
  then have "set p \<subseteq> set (removeDigits field)" and "p \<noteq> []"
    by (auto dest: jsSplit_chars)
  then show ?thesis by (auto simp: removeDigits_def)
qed

lemma set_fold_setAdd: "set (fold setAdd ps A) = set A \<union> set ps"
  by (induction ps arbitrary: A) (auto simp: setAdd_def)

text \<open>
  C10. For a line that is read as a record, the phonemes stored under the word and added
  to the alphabet are the pieces of the phoneme field, cut at single spaces after all
  digits were removed, that are not empty; so each is a non-empty string without a digit.
\<close>

theorem stored_phonemes_clean:
  assumes "parseLine line = Some (w, ps)"
  shows "dictionary (fst (processLine line (st, alphabet))) w = Some ps
     \<and> set (snd (processLine line (st, alphabet))) = set alphabet \<union> set ps
     \<and> ps = filter (\<lambda>p. p \<noteq> []) (jsSplit (removeDigits (jsSplit line ''  '' ! 1)) '' '')
     \<and> (\<forall>p \<in> set ps. p \<noteq> [] \<and> (\<forall>c \<in> set p. \<not> isDigit c))"
proof (intro conjI)
  show "dictionary (fst (processLine line (st, alphabet))) w = Some ps"
    using assms by (simp add: processLine_def)
  show "set (snd (processLine line (st, alphabet))) = set alphabet \<union> set ps"
    using assms by (simp add: processLine_def set_fold_setAdd)
  show "ps = filter (\<lambda>p. p \<noteq> []) (jsSplit (removeDigits (jsSplit line ''  '' ! 1)) '' '')"
    using assms by (auto simp: parseLine_def Let_def split: if_splits)
  show "\<forall>p \<in> set ps. p \<noteq> [] \<and> (\<forall>c \<in> set p. \<not> isDigit c)"
    using parseLine_clean [OF assms] by blast
qed

theorem stored_phonemes_clean_witness:
  "parseLine ''CAT   K AE1 1 T 22'' = Some (''CAT'', [''K'', ''AE'', ''T''])
   \<and> dictionary (fst (processLine ''CAT   K AE1 1 T 22'' (initialGame {}, []))) ''CAT''
       = Some [''K'', ''AE'', ''T'']
   \<and> set (snd (processLine ''CAT   K AE1 1 T 22'' (initialGame {}, []))) = {''K'', ''AE'', ''T''}"
proof -
  have p: "parseLine ''CAT   K AE1 1 T 22'' = Some (''CAT'', [''K'', ''AE'', ''T''])"
    by (simp add: parseLine_def jsSplit_def removeDigits_def isDigit_def Let_def)
  from stored_phonemes_clean [OF p, of "initialGame {}" "[]"] p show ?thesis by auto
qed

subsection \<open>Lines of the dictionary format\<close>

lemma splitOn_skip:
  assumes "sp \<notin> set t"
  shows "splitOn (sp # sep) (t @ rest)
       = (t @ hd (splitOn (sp # sep) rest)) # tl (splitOn (sp # sep) rest)"
  using assms
proof (induction t)
  case Nil
  then show ?case by (simp add: splitOn_not_Nil)
next
  case (Cons c t)
  then have "\<not> prefix (sp # sep) (c # t @ rest)" by auto
  with Cons show ?case by simp
qed

lemma joinWith_Cons:
  "joinWith sep (y # ys) = y @ (if ys = [] then [] else sep @ joinWith sep ys)"
  by (cases ys) simp_all

lemma joinWith_head:
  assumes "y \<noteq> []" and "CHR '' '' \<notin> set y"
  shows "\<exists>c cs. joinWith '' '' (y # ys) = c # cs \<and> c \<noteq> CHR '' ''"
  using assms by (cases y) (auto simp: joinWith_Cons)

lemma splitOn2_space_nonspace:
  "c \<noteq> CHR '' '' \<Longrightarrow> splitOn ''  '' (CHR '' '' # c # cs)
     = (CHR '' '' # hd (splitOn ''  '' (c # cs))) # tl (splitOn ''  '' (c # cs))"
  using splitOn_not_Nil [of "''  ''" "c # cs"]
  by (cases "splitOn ''  '' (c # cs)") auto

lemma splitOn2_field:
  "spaceFree ts \<Longrightarrow> splitOn ''  '' (joinWith '' '' ts) = [joinWith '' '' ts]"
proof (induction "'' ''" ts rule: joinWith.induct)
  case 1
  show ?case by simp
next
  case (2 x)
  then have "CHR '' '' \<notin> set x" by (simp add: spaceFree_def)
  from splitOn_skip [OF this, of "'' ''" "[]"] show ?case by simp
next
  case (3 x y ys)
  then have x: "CHR '' '' \<notin> set x" and y: "y \<noteq> []" "CHR '' '' \<notin> set y"
    and rest: "spaceFree (y # ys)"
    by (simp_all add: spaceFree_def)
  from joinWith_head [OF y, of ys] obtain c cs
    where j: "joinWith '' '' (y # ys) = c # cs" and c: "c \<noteq> CHR '' ''" by blast
  from "3.hyps" [OF rest] j have ih: "splitOn ''  '' (c # cs) = [c # cs]" by simp
  have "splitOn ''  '' (CHR '' '' # c # cs) = [CHR '' '' # c # cs]"
    using splitOn2_space_nonspace [OF c, of cs] ih by simp
  with splitOn_skip [OF x, of "'' ''" "CHR '' '' # c # cs"] j show ?case by simp
qed

lemma splitOn2_space_field:
  assumes "spaceFree ts"
  shows "splitOn ''  '' (CHR '' '' # joinWith '' '' ts) = [CHR '' '' # joinWith '' '' ts]"
proof (cases ts)
  case Nil
  then show ?thesis by simp
next
  case (Cons y ys)
  with assms have y: "y \<noteq> []" "CHR '' '' \<notin> set y" by (simp_all add: spaceFree_def)
  from joinWith_head [OF y, of ys] obtain c cs
    where j: "joinWith '' '' (y # ys) = c # cs" and c: "c \<noteq> CHR '' ''" by blast
  from splitOn2_field [OF assms] Cons j have "splitOn ''  '' (c # cs) = [c # cs]" by simp
  with splitOn2_space_nonspace [OF c, of cs] Cons j show ?thesis by simp
qed

lemma splitOn2_spaces:
  "splitOn ''  '' (replicate (Suc (Suc n)) (CHR '' '') @ s)
     = [] # splitOn ''  '' (replicate n (CHR '' '') @ s)"
  by simp

lemma splitOn2_separator:
  assumes "spaceFree ts"
  shows "length (splitOn ''  '' (replicate (Suc (Suc n)) (CHR '' '') @ joinWith '' '' ts)) = 2
         \<longleftrightarrow> n \<le> 1"
    and "n = 0 \<Longrightarrow> splitOn ''  '' (replicate (Suc (Suc n)) (CHR '' '') @ joinWith '' '' ts)
           = [[], joinWith '' '' ts]"
    and "n = 1 \<Longrightarrow> splitOn ''  '' (replicate (Suc (Suc n)) (CHR '' '') @ joinWith '' '' ts)
           = [[], CHR '' '' # joinWith '' '' ts]"
proof -
  show zero: "n = 0 \<Longrightarrow> splitOn ''  '' (replicate (Suc (Suc n)) (CHR '' '') @ joinWith '' '' ts)
           = [[], joinWith '' '' ts]"
    using splitOn2_field [OF assms] by simp
  show one: "n = 1 \<Longrightarrow> splitOn ''  '' (replicate (Suc (Suc n)) (CHR '' '') @ joinWith '' '' ts)
           = [[], CHR '' '' # joinWith '' '' ts]"
    using splitOn2_space_field [OF assms] by simp
  show "length (splitOn ''  '' (replicate (Suc (Suc n)) (CHR '' '') @ joinWith '' '' ts)) = 2
         \<longleftrightarrow> n \<le> 1"
  proof (cases "n \<le> 1")
    case True
    then have "n = 0 \<or> n = 1" by auto
    with zero one True show ?thesis by auto
  next
    case False
    then obtain m where m: "n = Suc (Suc m)" by (cases n; cases "n - 1") auto
    have "length (splitOn ''  '' (replicate m (CHR '' '') @ joinWith '' '' ts)) \<noteq> 0"
      by (simp add: splitOn_not_Nil)
    with False m show ?thesis
      by (simp only: splitOn2_spaces list.size) simp
  qed
qed

lemma removeDigits_append: "removeDigits (a @ b) = removeDigits a @ removeDigits b"
  by (simp add: removeDigits_def)

lemma removeDigits_space: "removeDigits (CHR '' '' # s) = CHR '' '' # removeDigits s"
  by (simp add: removeDigits_def isDigit_def)

lemma removeDigits_joinWith:
  "removeDigits (joinWith '' '' ts) = joinWith '' '' (map removeDigits ts)"
  by (induction "'' ''" ts rule: joinWith.induct)
    (simp_all add: removeDigits_append removeDigits_space, simp add: removeDigits_def)

lemma splitOn1_tokens:
  "list_all (\<lambda>t. CHR '' '' \<notin> set t) ts \<Longrightarrow>
   splitOn '' '' (joinWith '' '' ts) = (if ts = [] then [[]] else ts)"
proof (induction "'' ''" ts rule: joinWith.induct)
  case 1
  show ?case by simp
next
  case (2 x)
  then have "CHR '' '' \<notin> set x" by simp
  from splitOn_skip [OF this, of "[]" "[]"] show ?case by simp
next
  case (3 x y ys)
  then have x: "CHR '' '' \<notin> set x" and rest: "list_all (\<lambda>t. CHR '' '' \<notin> set t) (y # ys)"
    by simp_all
  from "3.hyps" [OF rest] have "splitOn '' '' (joinWith '' '' (y # ys)) = y # ys" by simp
  then have "splitOn '' '' (CHR '' '' # joinWith '' '' (y # ys)) = [] # y # ys" by simp
  with splitOn_skip [OF x, of "[]" "CHR '' '' # joinWith '' '' (y # ys)"] show ?case by simp
qed

lemma phonemes_of_field:
  assumes "list_all (\<lambda>t. CHR '' '' \<notin> set t) ts"
  shows "filter (\<lambda>p. p \<noteq> []) (jsSplit (removeDigits (joinWith '' '' ts)) '' '')
       = filter (\<lambda>p. p \<noteq> []) (map removeDigits ts)"
    and "filter (\<lambda>p. p \<noteq> []) (jsSplit (removeDigits (CHR '' '' # joinWith '' '' ts)) '' '')
       = filter (\<lambda>p. p \<noteq> []) (map removeDigits ts)"
proof -
  have "list_all (\<lambda>t. CHR '' '' \<notin> set t) (map removeDigits ts)"
    using assms by (auto simp: list_all_iff removeDigits_def)
  from splitOn1_tokens [OF this]
  have s: "splitOn '' '' (joinWith '' '' (map removeDigits ts))
      = (if ts = [] then [[]] else map removeDigits ts)" by simp
  show "filter (\<lambda>p. p \<noteq> []) (jsSplit (removeDigits (joinWith '' '' ts)) '' '')
       = filter (\<lambda>p. p \<noteq> []) (map removeDigits ts)"
    by (simp add: jsSplit_def removeDigits_joinWith s)
  show "filter (\<lambda>p. p \<noteq> []) (jsSplit (removeDigits (CHR '' '' # joinWith '' '' ts)) '' '')
       = filter (\<lambda>p. p \<noteq> []) (map removeDigits ts)"
    by (simp add: jsSplit_def removeDigits_space removeDigits_joinWith s)
qed

lemma parts_of_line:
  assumes w: "CHR '' '' \<notin> set w" and ts: "spaceFree ts"
  shows "jsSplit (w @ replicate (Suc (Suc n)) (CHR '' '') @ joinWith '' '' ts) ''  ''
       = w # tl (splitOn ''  '' (replicate (Suc (Suc n)) (CHR '' '') @ joinWith '' '' ts))"
  using splitOn_skip [OF w, of "'' ''" "replicate (Suc (Suc n)) (CHR '' '') @ joinWith '' '' ts"]
  by (simp add: jsSplit_def)

text \<open>
  C7, as the script has it. A line that is not a comment and consists of a word without
  spaces, a separator of \<open>n\<close> spaces with \<open>n\<close> at least two, and phoneme tokens
  joined by single spaces is stored exactly when the separator has two or three spaces:
  then the word is mapped to the tokens with all digits removed, those left empty dropped.
  With four or more spaces the line splits into more than two parts and nothing is stored.
\<close>

theorem record_line_stored:
  assumes w: "CHR '' '' \<notin> set w"
    and ts: "list_all (\<lambda>t. t \<noteq> [] \<and> CHR '' '' \<notin> set t) tokens"
    and n: "2 \<le> n"
    and nc: "\<not> prefix '';;;'' (w @ replicate n (CHR '' '') @ joinWith '' '' tokens)"
  shows "parseLine (w @ replicate n (CHR '' '') @ joinWith '' '' tokens)
       = (if n \<le> 3 then Some (w, filter (\<lambda>p. p \<noteq> []) (map removeDigits tokens)) else None)
     \<and> dictionary (fst (processLine (w @ replicate n (CHR '' '') @ joinWith '' '' tokens)
            (st, alphabet))) w
       = (if n \<le> 3 then Some (filter (\<lambda>p. p \<noteq> []) (map removeDigits tokens))
          else dictionary st w)"
proof -
  from n obtain m where m: "n = Suc (Suc m)" by (cases n; cases "n - 1") auto
  let ?line = "w @ replicate (Suc (Suc m)) (CHR '' '') @ joinWith '' '' tokens"
  let ?sep = "splitOn ''  '' (replicate (Suc (Suc m)) (CHR '' '') @ joinWith '' '' tokens)"
  from ts have sf: "spaceFree tokens" by (simp add: spaceFree_def)
  from ts have nosp: "list_all (\<lambda>t. CHR '' '' \<notin> set t) tokens" by (simp add: list_all_iff)
  have parts: "jsSplit ?line ''  '' = w # tl ?sep"
    by (rule parts_of_line [OF w sf])
  have ne: "?line \<noteq> []" by simp
  have len: "length (w # tl ?sep) = 2 \<longleftrightarrow> m \<le> 1"
    using splitOn2_separator(1) [OF sf, of m]
      splitOn_not_Nil [of "''  ''" "replicate (Suc (Suc m)) (CHR '' '') @ joinWith '' '' tokens"]
    by (cases ?sep) auto
  have parsed: "parseLine (w @ replicate n (CHR '' '') @ joinWith '' '' tokens)
       = (if n \<le> 3 then Some (w, filter (\<lambda>p. p \<noteq> []) (map removeDigits tokens)) else None)"
  proof (cases "m \<le> 1")
    case False
    with len ne nc m parts show ?thesis
      by (simp add: parseLine_def Let_def del: replicate.simps)
  next
    case True
    then consider "m = 0" | "m = 1" by linarith
    then show ?thesis
    proof cases
      case 1
      from splitOn2_separator(2) [OF sf 1] have "w # tl ?sep = [w, joinWith '' '' tokens]"
        by simp
      with parts ne nc m 1 phonemes_of_field(1) [OF nosp] show ?thesis
        by (simp add: parseLine_def Let_def)
    next
      case 2
      from splitOn2_separator(3) [OF sf 2]
      have "w # tl ?sep = [w, CHR '' '' # joinWith '' '' tokens]"
        by simp
      with parts ne nc m 2 phonemes_of_field(2) [OF nosp] show ?thesis
        by (simp add: parseLine_def Let_def)
    qed
  qed
  then show ?thesis by (simp add: processLine_def)
qed

theorem record_line_stored_witness:
  "CHR '' '' \<notin> set ''CAT''
   \<and> list_all (\<lambda>t. t \<noteq> [] \<and> CHR '' '' \<notin> set t) [''K'', ''AE1'', ''T'']
   \<and> (2::nat) \<le> 2
   \<and> \<not> prefix '';;;'' (''CAT'' @ replicate 2 (CHR '' '') @ joinWith '' '' [''K'', ''AE1'', ''T''])
   \<and> parseLine (''CAT'' @ replicate 2 (CHR '' '') @ joinWith '' '' [''K'', ''AE1'', ''T''])
       = Some (''CAT'', [''K'', ''AE'', ''T''])
   \<and> dictionary (fst (processLine
          (''CAT'' @ replicate 2 (CHR '' '') @ joinWith '' '' [''K'', ''AE1'', ''T''])
          (initialGame {}, []))) ''CAT''
       = Some [''K'', ''AE'', ''T'']"
proof -
  have w: "CHR '' '' \<notin> set ''CAT''" by simp
  have ts: "list_all (\<lambda>t. t \<noteq> [] \<and> CHR '' '' \<notin> set t) [''K'', ''AE1'', ''T'']" by simp
  have n: "(2::nat) \<le> 2" by simp
  have nc: "\<not> prefix '';;;''
      (''CAT'' @ replicate 2 (CHR '' '') @ joinWith '' '' [''K'', ''AE1'', ''T''])"
    by simp
  have r: "filter (\<lambda>p. p \<noteq> []) (map removeDigits [''K'', ''AE1'', ''T'']) = [''K'', ''AE'', ''T'']"
    by (simp add: removeDigits_def isDigit_def)
  from record_line_stored [OF w ts n nc, of "initialGame {}" "[]"] r w ts n nc
  show ?thesis by simp
qed

text \<open>A separator of four spaces: the line is not read as a record.\<close>

theorem four_space_separator_not_stored:
  "parseLine ''CAT    K AE1 T'' = None
   \<and> dictionary (fst (processLine ''CAT    K AE1 T'' (initialGame {}, []))) ''CAT'' = None"
  by (simp add: processLine_def initialGame_def parseLine_def jsSplit_def Let_def)

section \<open>Loading\<close>

subsection \<open>Batches\<close>

lemma nth_upt_take_drop: "b \<le> length xs \<Longrightarrow> map ((!) xs) [a..<b] = take (b - a) (drop a xs)"
  by (rule nth_equalityI) (auto simp: min_def)

lemma batch_fold:
  assumes "b \<le> length xs"
  shows "fold (\<lambda>i. f (xs ! i)) [a..<b] acc = fold f (take (b - a) (drop a xs)) acc"
proof -
  have "fold f (map ((!) xs) [a..<b]) acc = fold (f \<circ> (!) xs) [a..<b] acc"
    by (simp add: fold_map)
  moreover have "f \<circ> (!) xs = (\<lambda>i. f (xs ! i))"
    by (simp add: comp_def)
  ultimately show ?thesis
    using nth_upt_take_drop [OF assms, of a] by simp
qed

lemma fold_take_drop: "fold f (drop k xs) (fold f (take k xs) acc) = fold f xs acc"
proof -
  have "fold f (take k xs @ drop k xs) acc = fold f (drop k xs) (fold f (take k xs) acc)"
    by (simp only: fold_append comp_apply)
  then show ?thesis by (simp only: append_take_drop_id)
qed

lemma processDictionaryChunk_drop:
  assumes "0 < B" and "index \<le> length lines"
  shows "processDictionaryChunk B lines pick index acc
       = Some (loadSinglePass (drop index lines) pick acc)"
  using assms(2)
proof (induction "length lines - index" arbitrary: index acc rule: less_induct)
  case less
  let ?e = "min (index + B) (length lines)"
  let ?k = "?e - index"
  let ?acc = "fold processLine (take ?k (drop index lines)) acc"
  have batch: "fold (\<lambda>i. processLine (lines ! i)) [index..<?e] acc = ?acc"
    by (rule batch_fold) simp
  have unfold: "processDictionaryChunk B lines pick index acc =
      (if ?e < length lines then processDictionaryChunk B lines pick ?e ?acc
       else Some (finishLoading (snd ?acc) pick (fst ?acc)))"
    by (subst processDictionaryChunk.simps) (simp only: Let_def batch)
  show ?case
  proof (cases "?e < length lines")
    case True
    with assms(1) less.prems have smaller: "length lines - ?e < length lines - index"
      by (simp add: min_def split: if_splits)
    have "?e \<le> length lines" by simp
    from less.hyps [OF smaller this]
    have "processDictionaryChunk B lines pick ?e ?acc
        = Some (loadSinglePass (drop ?e lines) pick ?acc)" .
    moreover have "drop ?e lines = drop ?k (drop index lines)"
      by (simp add: min_def add.commute)
    ultimately show ?thesis
      using True by (simp only: unfold if_True loadSinglePass_def fold_take_drop)
  next
    case False
    with less.prems have "take ?k (drop index lines) = drop index lines"
      by (simp add: min_def split: if_splits)
    with False show ?thesis
      by (simp only: unfold if_False loadSinglePass_def Let_def)
  qed
qed

lemma loadGameData_single:
  "loadGameData dictText pick st = Some (loadSinglePass (jsSplit dictText [CHR 0x0A]) pick (st, []))"
  unfolding loadGameData_def
  using processDictionaryChunk_drop [of LINES_PER_FRAME 0 "jsSplit dictText [CHR 0x0A]" pick "(st, [])"]
  by (simp add: LINES_PER_FRAME_def)

lemma processDictionaryChunk_returns:
  assumes "processDictionaryChunk B lines pick index acc = Some r"
  shows "\<not> (B = 0 \<and> index < length lines)"
proof (rule processDictionaryChunk.raw_induct
    [where P = "\<lambda>B lines pick index acc r. \<not> (B = 0 \<and> index < length lines)", OF _ assms])
  fix f :: "nat \<Rightarrow> string list \<Rightarrow> nat \<Rightarrow> nat \<Rightarrow> game \<times> string list
      \<Rightarrow> ((error \<times> game) + game) option"
  fix B lines pick index acc r
  assume IH: "\<And>B lines pick index acc y. f B lines pick index acc = Some y
      \<Longrightarrow> \<not> (B = 0 \<and> index < length lines)"
  assume eq: "(let totalLines = length lines;
          endIndex = min (index + B) totalLines;
          acc' = fold (\<lambda>i. processLine (lines ! i)) [index..<endIndex] acc
      in if endIndex < totalLines
         then f B lines pick endIndex acc'
         else Some (finishLoading (snd acc') pick (fst acc'))) = Some r"
  show "\<not> (B = 0 \<and> index < length lines)"
  proof
    assume z: "B = 0 \<and> index < length lines"
    with eq have "f 0 lines pick index acc = Some r"
      by (simp add: Let_def min_def)
    from IH [OF this] z show False by simp
  qed
qed

lemma processDictionaryChunk_zero:
  "index < length lines \<Longrightarrow> processDictionaryChunk 0 lines pick index acc = None"
  using processDictionaryChunk_returns [of 0 lines pick index acc]
  by (cases "processDictionaryChunk 0 lines pick index acc") auto

text \<open>
  C5. For every dictionary text and every batch size that is not zero, the loader that
  works through the lines batch by batch returns, and returns what one pass over all
  lines followed by \<^verbatim>\<open>finishLoading\<close> returns: the same state, so the same lexicon, the
  same sorted alphabet and the same candidate list. So does the script's own loader, whose
  batches have \<open>LINES_PER_FRAME\<close> lines. (With a batch of no lines the loader never
  gets past its first line: \<open>processDictionaryChunk_zero\<close>.)
\<close>

theorem chunked_load_is_single_pass:
  assumes "0 < B"
  shows "processDictionaryChunk B (jsSplit dictText [CHR 0x0A]) pick 0 (st, [])
       = Some (loadSinglePass (jsSplit dictText [CHR 0x0A]) pick (st, []))
     \<and> loadGameData dictText pick st
       = Some (loadSinglePass (jsSplit dictText [CHR 0x0A]) pick (st, []))"
  using processDictionaryChunk_drop [OF assms, of 0 "jsSplit dictText [CHR 0x0A]" pick "(st, [])"]
  by (simp add: loadGameData_single)

theorem chunked_load_is_single_pass_witness:
  "(0::nat) < 2
   \<and> (\<exists>st'. processDictionaryChunk 2 (jsSplit exampleDictionary [CHR 0x0A]) 0 0
                (initialGame {''WORLDS''}, []) = Some (Inr st')
        \<and> loadGameData exampleDictionary 0 (initialGame {''WORLDS''}) = Some (Inr st')
        \<and> wordlist st' = [''WORLDS'']
        \<and> allPhonemesSorted st' = [''AE'', ''D'', ''ER'', ''K'', ''L'', ''T'', ''W'', ''Z'']
        \<and> dictionary st' ''CAT'' = Some [''K'', ''AE'', ''T''])"
proof -
  have pos: "(0::nat) < 2" by simp
  have ev: "\<exists>st'. loadSinglePass (jsSplit exampleDictionary [CHR 0x0A]) 0
                (initialGame {''WORLDS''}, []) = Inr st'
        \<and> wordlist st' = [''WORLDS'']
        \<and> allPhonemesSorted st' = [''AE'', ''D'', ''ER'', ''K'', ''L'', ''T'', ''W'', ''Z'']
        \<and> dictionary st' ''CAT'' = Some [''K'', ''AE'', ''T'']"
    by (simp add: exampleDictionary_def loadSinglePass_def processLine_def finishLoading_def
      startGame_def nthOpt_def keyText_def hideMessageBox_def setAdd_def
      initialGame_def parseLine_def jsSplit_def removeDigits_def isDigit_def Let_def)
  from chunked_load_is_single_pass [OF pos, of exampleDictionary 0 "initialGame {''WORLDS''}"]
    pos ev
  show ?thesis by auto
qed

subsection \<open>What a load leaves in the lexicon and in the candidate list\<close>

lemma map_add_last: "m ++ map_of (rev rs @ [(w, ps)]) = m(w \<mapsto> ps) ++ map_of (rev rs)"
  by (rule ext) (simp add: map_add_def split: option.splits)

lemma candidates_Cons:
  "candidates freq ((w, ps) # rs)
     = (if length ps = 5 \<and> w \<in> freq then [w] else []) @ candidates freq rs"
  by (simp add: candidates_def)

lemma fold_processLine:
  "fold processLine lines (st, A) =
     (st\<lparr>dictionary := dictionary st ++ map_of (rev (records lines)),
         wordlist := wordlist st @ candidates (frequencySet st) (records lines)\<rparr>,
      fold setAdd (concat (map snd (records lines))) A)"
proof (induction lines arbitrary: st A)
  case Nil
  show ?case by (simp add: records_def candidates_def)
next
  case (Cons line lines)
  show ?case
  proof (cases "parseLine line")
    case None
    then have "processLine line (st, A) = (st, A)" "records (line # lines) = records lines"
      by (simp_all add: processLine_def records_def)
    with Cons.IH [of st A] show ?thesis by simp
  next
    case (Some r)
    obtain w ps where r: "r = (w, ps)" by (cases r)
    let ?st = "st\<lparr>dictionary := (dictionary st)(w \<mapsto> ps),
             wordlist := (if length ps = 5 \<and> w \<in> frequencySet st
                          then wordlist st @ [w] else wordlist st)\<rparr>"
    from Some r have step: "processLine line (st, A) = (?st, fold setAdd ps A)"
      and recs: "records (line # lines) = (w, ps) # records lines"
      by (simp_all add: processLine_def records_def)
    have "fold processLine (line # lines) (st, A) = fold processLine lines (?st, fold setAdd ps A)"
      by (simp add: step)
    also have "\<dots> = (?st\<lparr>dictionary := dictionary ?st ++ map_of (rev (records lines)),
         wordlist := wordlist ?st @ candidates (frequencySet ?st) (records lines)\<rparr>,
      fold setAdd (concat (map snd (records lines))) (fold setAdd ps A))"
      by (rule Cons.IH)
    also have "\<dots> = (st\<lparr>dictionary := dictionary st ++ map_of (rev (records (line # lines))),
         wordlist := wordlist st @ candidates (frequencySet st) (records (line # lines))\<rparr>,
      fold setAdd (concat (map snd (records (line # lines)))) A)"
      unfolding recs rev.simps map_add_last candidates_Cons by simp
    finally show ?thesis .
  qed
qed

lemma startGame_keeps:
  "dictionary (globals (startGame pick st)) = dictionary st"
  "wordlist (globals (startGame pick st)) = wordlist st"
  "allPhonemesSorted (globals (startGame pick st)) = allPhonemesSorted st"
  by (simp_all add: startGame_def globals_def hideMessageBox_def Let_def split: option.splits)

lemma finishLoading_keeps:
  "dictionary (globals (finishLoading A pick st)) = dictionary st"
  "wordlist (globals (finishLoading A pick st)) = wordlist st"
  "allPhonemesSorted (globals (finishLoading A pick st)) = sort A"
  by (simp_all add: finishLoading_def startGame_keeps)

lemma count_list_candidates:
  "count_list (candidates freq rs) w
     = length (filter (\<lambda>(w', ps). w' = w \<and> length ps = 5 \<and> w \<in> freq) rs)"
  by (induction rs) (auto simp: candidates_def)

text \<open>
  C8, as the script has it. After loading, the lexicon maps a word to the phonemes of the
  last record with that spelling, and the candidate list holds the word once for every
  record with that spelling that has five phonemes, provided the word is in the frequency
  set: the list is appended to for each such line and nothing removes repetitions.
\<close>

theorem candidate_list_counts_lines:
  "\<exists>r. loadGameData dictText pick (initialGame freq) = Some r
     \<and> dictionary (globals r) w = map_of (rev (records (jsSplit dictText [CHR 0x0A]))) w
     \<and> count_list (wordlist (globals r)) w
         = length (filter (\<lambda>(w', ps). w' = w \<and> length ps = 5 \<and> w \<in> freq)
             (records (jsSplit dictText [CHR 0x0A])))"
  by (simp add: loadGameData_single loadSinglePass_def fold_processLine finishLoading_keeps
      count_list_candidates initialGame_def)

theorem candidate_list_counts_lines_witness:
  "\<exists>r. loadGameData (''WORLDS  W ER1 L D Z'' @ [CHR 0x0A] @ ''WORLDS  W ER1 L D'') 0
          (initialGame {''WORLDS''}) = Some r
      \<and> dictionary (globals r) ''WORLDS'' = Some [''W'', ''ER'', ''L'', ''D'']
      \<and> count_list (wordlist (globals r)) ''WORLDS'' = 1"
  using candidate_list_counts_lines
    [of "''WORLDS  W ER1 L D Z'' @ [CHR 0x0A] @ ''WORLDS  W ER1 L D''" 0 "{''WORLDS''}" "''WORLDS''"]
  by (simp add: records_def parseLine_def jsSplit_def removeDigits_def isDigit_def Let_def)

text \<open>The same record on two lines: the word is a candidate twice.\<close>

theorem duplicate_word_listed_twice:
  "\<exists>r. loadGameData (''WORLDS  W ER1 L D Z'' @ [CHR 0x0A] @ ''WORLDS  W ER1 L D Z'') 0
          (initialGame {''WORLDS''}) = Some r
      \<and> wordlist (globals r) = [''WORLDS'', ''WORLDS'']"
  by (simp add: loadGameData_single loadSinglePass_def processLine_def finishLoading_keeps
      initialGame_def parseLine_def jsSplit_def removeDigits_def isDigit_def Let_def)

subsection \<open>Loading that ends without a candidate\<close>

text \<open>
  C9, as the script has it. \<^verbatim>\<open>finishLoading\<close> does not look at the candidate list: it
  always calls \<^verbatim>\<open>startGame\<close>. With an empty list the target word is
  \<^verbatim>\<open>undefined\<close> and the target phonemes are the lexicon's entry for the key
  \<^verbatim>\<open>undefined\<close>. Without such an entry \<^verbatim>\<open>startGame\<close> throws a
  \<^verbatim>\<open>TypeError\<close> before it sets the phase, which stays as it was, with the game
  container shown; with one, the round starts in phase playing.
\<close>

theorem finishLoading_empty_candidates:
  assumes "wordlist st = []"
  shows "(dictionary st ''undefined'' = None \<longrightarrow>
           (\<exists>st'. finishLoading A pick st = Inl (TypeError, st') \<and> gameState st' = gameState st
              \<and> targetWord st' = None \<and> targetPhonemes st' = None \<and> \<not> gameHidden st'))
       \<and> (\<forall>tp. dictionary st ''undefined'' = Some tp \<longrightarrow>
           (\<exists>st'. finishLoading A pick st = Inr st' \<and> gameState st' = Playing
              \<and> targetWord st' = None \<and> targetPhonemes st' = Some tp \<and> wordlist st' = []))"
  using assms
  by (simp add: finishLoading_def startGame_def nthOpt_def keyText_def hideMessageBox_def Let_def)

theorem finishLoading_empty_candidates_witness:
  "wordlist (initialGame {}) = []
   \<and> dictionary (initialGame {}) ''undefined'' = None
   \<and> (\<exists>st'. finishLoading [] 0 (initialGame {}) = Inl (TypeError, st') \<and> gameState st' = Loading)
   \<and> wordlist ((initialGame {})\<lparr>dictionary := [''undefined'' \<mapsto> [''AH'', ''N'', ''D'']]\<rparr>) = []
   \<and> (\<exists>st'. finishLoading [''AH'', ''N'', ''D''] 0
          ((initialGame {})\<lparr>dictionary := [''undefined'' \<mapsto> [''AH'', ''N'', ''D'']]\<rparr>) = Inr st'
        \<and> gameState st' = Playing \<and> targetWord st' = None)"
proof -
  let ?a = "initialGame {}"
  let ?b = "(initialGame {})\<lparr>dictionary := [''undefined'' \<mapsto> [''AH'', ''N'', ''D'']]\<rparr>"
  have wa: "wordlist ?a = []" and da: "dictionary ?a ''undefined'' = None"
    and ga: "gameState ?a = Loading"
    by (simp_all add: initialGame_def)
  have wb: "wordlist ?b = []" and db: "dictionary ?b ''undefined'' = Some [''AH'', ''N'', ''D'']"
    by (simp_all add: initialGame_def)
  from finishLoading_empty_candidates [OF wa, of "[]" 0] da ga
  have a: "\<exists>st'. finishLoading [] 0 ?a = Inl (TypeError, st') \<and> gameState st' = Loading"
    by auto
  from finishLoading_empty_candidates [OF wb, of "[''AH'', ''N'', ''D'']" 0] db
  have b: "\<exists>st'. finishLoading [''AH'', ''N'', ''D''] 0 ?b = Inr st'
        \<and> gameState st' = Playing \<and> targetWord st' = None"
    by auto
  from wa da a wb b show ?thesis by blast
qed

text \<open>
  A dictionary whose only record is the word \<^verbatim>\<open>undefined\<close>, with an empty frequency
  list: loading ends with no candidate and a round in phase playing.
\<close>

theorem empty_candidates_round_started:
  "\<exists>st'. loadGameData ''undefined  AH N D'' 0 (initialGame {}) = Some (Inr st')
      \<and> wordlist st' = [] \<and> gameState st' = Playing \<and> targetWord st' = None
      \<and> targetPhonemes st' = Some [''AH'', ''N'', ''D'']"
  by (simp add: loadGameData_single loadSinglePass_def processLine_def finishLoading_def
      startGame_def nthOpt_def keyText_def hideMessageBox_def setAdd_def
      initialGame_def parseLine_def jsSplit_def removeDigits_def isDigit_def Let_def)

end
